theory Spec2Isabelle
  imports Complex_Main
begin

section \<open>JavaScript strings\<close>

text \<open>
  Strings are lists of 8-bit characters.  \<open>bigint_toString\<close> is \<^verbatim>\<open>BigInt.prototype.toString()\<close>:
  decimal digits, most significant first, with a leading minus sign for a negative value.
\<close>

definition digit_char :: "nat \<Rightarrow> char" where
  "digit_char d = char_of (48 + d)"

fun nat_toString :: "nat \<Rightarrow> string" where
  "nat_toString n =
     (if n < 10 then [digit_char n] else nat_toString (n div 10) @ [digit_char (n mod 10)])"

definition bigint_toString :: "int \<Rightarrow> string" where
  "bigint_toString k =
     (if k < 0 then CHR ''-'' # nat_toString (nat (- k)) else nat_toString (nat k))"





text \<open>
  \<^verbatim>\<open>s.includes(pat)\<close> and the test that \<open>pat\<close> stands at the start of \<open>s\<close>.
\<close>

fun starts_with :: "string \<Rightarrow> string \<Rightarrow> bool" where
  "starts_with [] s = True"
| "starts_with (p # ps) [] = False"
| "starts_with (p # ps) (c # cs) = (p = c \<and> starts_with ps cs)"

fun str_includes :: "string \<Rightarrow> string \<Rightarrow> bool" where
  "str_includes [] pat = (pat = [])"
| "str_includes (c # cs) pat = (starts_with pat (c # cs) \<or> str_includes cs pat)"

text \<open>
  \<^verbatim>\<open>toLowerCase\<close> on 8-bit code units: the ASCII capitals and the Latin-1 capitals
  (\<open>0xC0\<close> to \<open>0xDE\<close> without the multiplication sign \<open>0xD7\<close>) move up by 32.
\<close>

definition lower_char :: "char \<Rightarrow> char" where
  "lower_char c =
     (let n = of_char c :: nat
      in if (65 \<le> n \<and> n \<le> 90) \<or> (192 \<le> n \<and> n \<le> 222 \<and> n \<noteq> 215)
         then char_of (n + 32) else c)"

definition toLowerCase :: "string \<Rightarrow> string" where
  "toLowerCase s = map lower_char s"


text \<open>
  Character classes of the regular expressions in src/errors.ts and the error parser.
  With the \<^verbatim>\<open>i\<close> flag an ASCII letter of a pattern matches both of its cases and nothing
  else; \<^verbatim>\<open>\s\<close> is the ASCII white space and the no-break space.
\<close>

definition is_digit :: "char \<Rightarrow> bool" where
  "is_digit c = (let n = of_char c :: nat in 48 \<le> n \<and> n \<le> 57)"

definition is_letter :: "char \<Rightarrow> bool" where
  "is_letter c = (let n = of_char c :: nat in (65 \<le> n \<and> n \<le> 90) \<or> (97 \<le> n \<and> n \<le> 122))"

definition is_space :: "char \<Rightarrow> bool" where
  "is_space c = (let n = of_char c :: nat in (9 \<le> n \<and> n \<le> 13) \<or> n = 32 \<or> n = 160)"

definition is_colon_or_space :: "char \<Rightarrow> bool" where
  "is_colon_or_space c = (c = CHR '':'' \<or> is_space c)"

definition ascii_lower :: "char \<Rightarrow> char" where
  "ascii_lower c = (let n = of_char c :: nat in if 65 \<le> n \<and> n \<le> 90 then char_of (n + 32) else c)"

text \<open>\<open>starts_with_ci pat s\<close>: the lower-case ASCII pattern stands at the start of \<open>s\<close>, in any case.\<close>

fun starts_with_ci :: "string \<Rightarrow> string \<Rightarrow> bool" where
  "starts_with_ci [] s = True"
| "starts_with_ci (p # ps) [] = False"
| "starts_with_ci (p # ps) (c # cs) = (p = ascii_lower c \<and> starts_with_ci ps cs)"

text \<open>
  A regular expression is tried at every start position from the left; the first
  position where it matches gives the match.
\<close>

fun first_match :: "(string \<Rightarrow> 'a option) \<Rightarrow> string \<Rightarrow> 'a option" where
  "first_match m [] = m []"
| "first_match m (c # cs) = (case m (c # cs) of Some r \<Rightarrow> Some r | None \<Rightarrow> first_match m cs)"

text \<open>\<^verbatim>\<open>parseInt(digits, 10)\<close> and \<^verbatim>\<open>BigInt(digits)\<close> on a string of decimal digits.\<close>

definition digits_value :: "string \<Rightarrow> nat" where
  "digits_value ds = foldl (\<lambda>n c. 10 * n + (of_char c - 48)) 0 ds"

text \<open>
  The tail shared by several patterns: \<^verbatim>\<open>[:\s]*(\d+)\<close>.  The classes are disjoint, so
  the greedy reading is the only match.
\<close>

definition sep_then_digits :: "string \<Rightarrow> nat option" where
  "sep_then_digits s =
     (let r = dropWhile is_colon_or_space s; ds = takeWhile is_digit r
      in if ds = [] then None else Some (digits_value ds))"

section \<open>Error taxonomy and classifier (src/errors.ts, the error parser)\<close>

text \<open>
  A value that reaches \<open>mapError\<close> is either already a typed SDK error or a raw value:
  an \<^verbatim>\<open>Error\<close> instance with its message, a plain object with an optional
  \<^verbatim>\<open>message\<close> property, a string, \<^verbatim>\<open>null\<close> or \<^verbatim>\<open>undefined\<close>.  An object may carry
  \<^verbatim>\<open>details.pairAddress\<close> and \<^verbatim>\<open>details.pair\<close>.
\<close>

record obj_details =
  details_pairAddress :: "string option"
  details_pair :: "string option"

datatype raw_err =
    ErrorObject string obj_details
  | PlainObject "string option" obj_details
  | StringValue string
  | NullValue
  | UndefinedValue

datatype sdk_class =
    CoralSwapSDKError | NetworkError | RpcError | SimulationError | TransactionError
  | DeadlineError | SlippageError | InsufficientLiquidityError | PairNotFoundError
  | ValidationError | FlashLoanError | CircuitBreakerError | SignerError

datatype detail = DString string | DNumber int | DNull | DOriginal raw_err

record sdk_error =
  cls :: sdk_class
  code :: string
  message :: string
  details :: "(string \<times> detail) list option"

datatype thrown = Typed sdk_error | Raw raw_err

text \<open>Object spread \<^verbatim>\<open>{ ...base, ...extra }\<close>: a present key is overwritten in place.\<close>

fun put_key :: "(string \<times> detail) list \<Rightarrow> string \<Rightarrow> detail \<Rightarrow> (string \<times> detail) list" where
  "put_key [] k v = [(k, v)]"
| "put_key ((k', v') # kvs) k v = (if k' = k then (k, v) # kvs else (k', v') # put_key kvs k v)"

definition spread :: "(string \<times> detail) list \<Rightarrow> (string \<times> detail) list option \<Rightarrow> (string \<times> detail) list" where
  "spread base extra =
     (case extra of None \<Rightarrow> base | Some kvs \<Rightarrow> foldl (\<lambda>acc (k, v). put_key acc k v) base kvs)"

text \<open>\<^verbatim>\<open>additionalDetails?.message as string || fallback\<close>: a non-empty string wins.\<close>

definition details_message :: "(string \<times> detail) list option \<Rightarrow> string \<Rightarrow> string" where
  "details_message extra fallback =
     (case extra of
        None \<Rightarrow> fallback
      | Some kvs \<Rightarrow>
          (case map_of kvs ''message'' of
             Some (DString m) \<Rightarrow> (if m = [] then fallback else m)
           | _ \<Rightarrow> fallback))"

subsection \<open>The error classes (constructors)\<close>

definition new_CoralSwapSDKError ::
  "string \<Rightarrow> string \<Rightarrow> (string \<times> detail) list option \<Rightarrow> sdk_error" where
  "new_CoralSwapSDKError c m d = \<lparr>cls = CoralSwapSDKError, code = c, message = m, details = d\<rparr>"

definition new_NetworkError :: "string \<Rightarrow> sdk_error" where
  "new_NetworkError m = \<lparr>cls = NetworkError, code = ''NETWORK_ERROR'', message = m, details = None\<rparr>"

definition new_RpcError :: "string \<Rightarrow> sdk_error" where
  "new_RpcError m = \<lparr>cls = RpcError, code = ''RPC_ERROR'', message = m, details = None\<rparr>"

definition new_SimulationError :: "string \<Rightarrow> sdk_error" where
  "new_SimulationError m =
     \<lparr>cls = SimulationError, code = ''SIMULATION_ERROR'', message = m, details = None\<rparr>"

definition new_TransactionError :: "string \<Rightarrow> (string \<times> detail) list option \<Rightarrow> sdk_error" where
  "new_TransactionError m d =
     \<lparr>cls = TransactionError, code = ''TRANSACTION_ERROR'', message = m, details = d\<rparr>"

definition new_DeadlineError :: "int \<Rightarrow> sdk_error" where
  "new_DeadlineError deadline =
     \<lparr>cls = DeadlineError, code = ''DEADLINE_EXCEEDED'',
      message = ''Transaction deadline exceeded (deadline: '' @ bigint_toString deadline @ '')'',
      details = Some [(''deadline'', DNumber deadline)]\<rparr>"

definition new_SlippageError ::
  "int \<Rightarrow> int \<Rightarrow> int \<Rightarrow> (string \<times> detail) list option \<Rightarrow> sdk_error" where
  "new_SlippageError expected actual toleranceBps additionalDetails =
     \<lparr>cls = SlippageError, code = ''SLIPPAGE_EXCEEDED'',
      message = details_message additionalDetails
        (''Slippage tolerance exceeded. Expected '' @ bigint_toString expected @ '', got ''
           @ bigint_toString actual @ '' (tolerance: '' @ bigint_toString toleranceBps @ '' bps)''),
      details = Some (spread
        [(''expected'', DString (bigint_toString expected)),
         (''actual'', DString (bigint_toString actual)),
         (''toleranceBps'', DNumber toleranceBps)] additionalDetails)\<rparr>"

definition new_InsufficientLiquidityError ::
  "string \<Rightarrow> (string \<times> detail) list option \<Rightarrow> sdk_error" where
  "new_InsufficientLiquidityError pairAddr d =
     \<lparr>cls = InsufficientLiquidityError, code = ''INSUFFICIENT_LIQUIDITY'',
      message = details_message d (''Insufficient liquidity for pair '' @ pairAddr),
      details = Some (spread [(''pairAddress'', DString pairAddr)] d)\<rparr>"

definition new_PairNotFoundError :: "string \<Rightarrow> string \<Rightarrow> sdk_error" where
  "new_PairNotFoundError tokenA tokenB =
     \<lparr>cls = PairNotFoundError, code = ''PAIR_NOT_FOUND'',
      message = ''Pair not found for tokens '' @ tokenA @ '' / '' @ tokenB,
      details = Some [(''tokenA'', DString tokenA), (''tokenB'', DString tokenB)]\<rparr>"

definition new_ValidationError :: "string \<Rightarrow> (string \<times> detail) list option \<Rightarrow> sdk_error" where
  "new_ValidationError m d =
     \<lparr>cls = ValidationError, code = ''VALIDATION_ERROR'', message = m, details = d\<rparr>"

definition new_FlashLoanError :: "string \<Rightarrow> sdk_error" where
  "new_FlashLoanError m =
     \<lparr>cls = FlashLoanError, code = ''FLASH_LOAN_ERROR'', message = m, details = None\<rparr>"

definition new_CircuitBreakerError :: "string \<Rightarrow> sdk_error" where
  "new_CircuitBreakerError pairAddr =
     \<lparr>cls = CircuitBreakerError, code = ''CIRCUIT_BREAKER'',
      message = ''Pool is paused for pair '' @ pairAddr,
      details = Some [(''pairAddress'', DString pairAddr)]\<rparr>"

definition new_SignerError :: sdk_error where
  "new_SignerError =
     \<lparr>cls = SignerError, code = ''NO_SIGNER'',
      message = ''No signing key configured. Provide secretKey in config or use external signing.'',
      details = None\<rparr>"

subsection \<open>The error parser\<close>

definition PAIR_ERROR_MAP :: "(nat \<times> string) list" where
  "PAIR_ERROR_MAP =
     [(100, ''Pair already initialized''), (101, ''Zero address provided''),
      (102, ''Identical tokens provided''), (103, ''Insufficient liquidity minted''),
      (104, ''Insufficient liquidity burned''), (105, ''Insufficient output amount''),
      (106, ''Insufficient liquidity in pool''), (107, ''Invalid amount''),
      (108, ''K invariant violated''), (109, ''Insufficient input amount''),
      (110, ''Contract is locked (reentrancy guard)''),
      (111, ''Transaction expired (deadline exceeded)''),
      (112, ''Constraint not met''), (113, ''Invalid fee configuration'')]"

definition ROUTER_ERROR_MAP :: "(nat \<times> string) list" where
  "ROUTER_ERROR_MAP =
     [(200, ''Router already initialized''), (201, ''Invalid swap path''),
      (202, ''Insufficient output amount''), (203, ''Excessive input amount''),
      (204, ''Expired deadline''), (205, ''Insufficient liquidity''),
      (206, ''Pair not found''), (207, ''Identical tokens'')]"

definition FACTORY_ERROR_MAP :: "(nat \<times> string) list" where
  "FACTORY_ERROR_MAP =
     [(300, ''Factory already initialized''), (301, ''Unauthorized caller''),
      (302, ''Pair already exists''), (303, ''Zero address provided''),
      (304, ''Invalid fee configuration'')]"

definition parseContractError :: "nat \<Rightarrow> string option" where
  "parseContractError c =
     (if 100 \<le> c \<and> c < 120 then map_of PAIR_ERROR_MAP c
      else if 200 \<le> c \<and> c < 220 then map_of ROUTER_ERROR_MAP c
      else if 300 \<le> c \<and> c < 320 then map_of FACTORY_ERROR_MAP c
      else None)"

text \<open>
  \<^verbatim>\<open>/Error\(Contract,\s*#?([0-9]+)\)/i\<close> at the start of \<open>s\<close>.  White space, the hash sign,
  digits and the closing bracket are disjoint classes, so the greedy reading is the only
  match.  The code is an exact natural number (the rounding of \<^verbatim>\<open>parseInt\<close> above
  \<open>2^53\<close> is not modelled).
\<close>

definition contract_code_here :: "string \<Rightarrow> nat option" where
  "contract_code_here s =
     (if starts_with_ci ''error(contract,'' s
      then
        let r1 = dropWhile is_space (drop 15 s);
            r2 = (case r1 of c # t \<Rightarrow> (if c = CHR ''#'' then t else r1) | [] \<Rightarrow> r1);
            ds = takeWhile is_digit r2;
            r3 = dropWhile is_digit r2
        in if ds \<noteq> [] \<and> starts_with '')'' r3 then Some (digits_value ds) else None
      else None)"

definition error_message_property :: "raw_err \<Rightarrow> string" where
  "error_message_property err =
     (case err of
        StringValue s \<Rightarrow> s
      | ErrorObject m _ \<Rightarrow> m
      | PlainObject mo _ \<Rightarrow> (case mo of Some m \<Rightarrow> m | None \<Rightarrow> [])
      | NullValue \<Rightarrow> []
      | UndefinedValue \<Rightarrow> [])"

definition extractErrorCode :: "raw_err \<Rightarrow> nat option" where
  "extractErrorCode err =
     (let msg = error_message_property err
      in if msg = [] then None else first_match contract_code_here msg)"

subsection \<open>mapError\<close>

text \<open>\<^verbatim>\<open>err instanceof Error ? err.message : String(err)\<close>.\<close>

definition raw_message :: "raw_err \<Rightarrow> string" where
  "raw_message err =
     (case err of
        ErrorObject m _ \<Rightarrow> m
      | PlainObject _ _ \<Rightarrow> ''[object Object]''
      | StringValue s \<Rightarrow> s
      | NullValue \<Rightarrow> ''null''
      | UndefinedValue \<Rightarrow> ''undefined'')"

text \<open>\<^verbatim>\<open>/[CG][A-Z0-9]{47,55}/i\<close> at the start of \<open>s\<close>: the matched text.\<close>

definition is_alnum :: "char \<Rightarrow> bool" where
  "is_alnum c = (is_letter c \<or> is_digit c)"

definition address_here :: "string \<Rightarrow> string option" where
  "address_here s =
     (case s of
        [] \<Rightarrow> None
      | c # t \<Rightarrow>
          if ascii_lower c = CHR ''c'' \<or> ascii_lower c = CHR ''g''
          then (let run = takeWhile is_alnum t
                in if 47 \<le> length run then Some (c # take 55 run) else None)
          else None)"

definition truthy_string :: "string option \<Rightarrow> bool" where
  "truthy_string so = (case so of None \<Rightarrow> False | Some s \<Rightarrow> s \<noteq> [])"

definition extractPairAddress :: "raw_err \<Rightarrow> string" where
  "extractPairAddress err =
     (let from_details =
            (case err of
               ErrorObject _ d \<Rightarrow>
                 (if truthy_string (details_pairAddress d) then details_pairAddress d
                  else if truthy_string (details_pair d) then details_pair d else None)
             | PlainObject _ d \<Rightarrow>
                 (if truthy_string (details_pairAddress d) then details_pairAddress d
                  else if truthy_string (details_pair d) then details_pair d else None)
             | _ \<Rightarrow> None)
      in case from_details of
           Some a \<Rightarrow> a
         | None \<Rightarrow>
             (case first_match address_here (raw_message err) of
                Some a \<Rightarrow> a
              | None \<Rightarrow> ''unknown''))"

definition mapContractError :: "nat \<Rightarrow> raw_err \<Rightarrow> sdk_error option" where
  "mapContractError c err =
     (let msg = parseContractError c;
          msg_detail = (case msg of Some m \<Rightarrow> DString m | None \<Rightarrow> DNull);
          msg_or = (\<lambda>fallback. case msg of Some m \<Rightarrow> (if m = [] then fallback else m)
                                         | None \<Rightarrow> fallback);
          code_only = Some [(''contractErrorCode'', DNumber (int c))];
          code_and_message = Some [(''contractErrorCode'', DNumber (int c)), (''message'', msg_detail)]
      in if c = 100 then Some (new_ValidationError (msg_or ''Already initialized'') code_only)
         else if c = 101 then Some (new_ValidationError (msg_or ''Zero address'') code_only)
         else if c = 102 then Some (new_ValidationError (msg_or ''Identical tokens'') code_only)
         else if c = 103 \<or> c = 104 \<or> c = 106
           then Some (new_InsufficientLiquidityError (extractPairAddress err) code_and_message)
         else if c = 105 then Some (new_SlippageError 0 0 0 code_and_message)
         else if c = 107 \<or> c = 109
           then Some (new_ValidationError (msg_or ''Invalid amount'') code_only)
         else if c = 108 then Some (new_ValidationError (msg_or ''K invariant violated'') code_only)
         else if c = 110 then Some (new_TransactionError (msg_or ''Contract locked'') code_only)
         else if c = 111 then Some (new_DeadlineError 0)
         else if c = 112 \<or> c = 113
           then Some (new_ValidationError (msg_or ''Constraint not met'') code_only)
         else if c = 201 then Some (new_ValidationError (msg_or ''Invalid swap path'') code_only)
         else if c = 202 \<or> c = 203 then Some (new_SlippageError 0 0 0 code_and_message)
         else if c = 204 then Some (new_DeadlineError 0)
         else if c = 205
           then Some (new_InsufficientLiquidityError (extractPairAddress err) code_and_message)
         else if c = 206 then Some (new_PairNotFoundError ''unknown'' ''unknown'')
         else if c = 300 then Some (new_PairNotFoundError ''unknown'' ''unknown'')
         else None)"

text \<open>
  The patterns that extract numbers from the message:
  \<^verbatim>\<open>/deadline[:\s]*[a-z]*[:\s]*(\d+)/i\<close>, \<^verbatim>\<open>/expected[:\s]*(\d+)/i\<close>,
  \<^verbatim>\<open>/(?:got|actual)[:\s]*(\d+)/i\<close> and \<^verbatim>\<open>/tolerance[:\s]*(\d+)/i\<close>.
\<close>

definition deadline_here :: "string \<Rightarrow> nat option" where
  "deadline_here s =
     (if starts_with_ci ''deadline'' s
      then sep_then_digits (dropWhile is_letter (dropWhile is_colon_or_space (drop 8 s)))
      else None)"

definition expected_here :: "string \<Rightarrow> nat option" where
  "expected_here s = (if starts_with_ci ''expected'' s then sep_then_digits (drop 8 s) else None)"

definition actual_here :: "string \<Rightarrow> nat option" where
  "actual_here s =
     (if starts_with_ci ''got'' s then sep_then_digits (drop 3 s)
      else if starts_with_ci ''actual'' s then sep_then_digits (drop 6 s)
      else None)"

definition tolerance_here :: "string \<Rightarrow> nat option" where
  "tolerance_here s = (if starts_with_ci ''tolerance'' s then sep_then_digits (drop 9 s) else None)"

definition match_number :: "(string \<Rightarrow> nat option) \<Rightarrow> string \<Rightarrow> int" where
  "match_number pat s = (case first_match pat s of Some n \<Rightarrow> int n | None \<Rightarrow> 0)"

text \<open>
  The substring heuristics of \<open>mapError\<close>, in the order of the source; \<open>msg\<close> is the raw
  message and \<open>norm\<close> its lower-case form.
\<close>

definition mapError_heuristics :: "raw_err \<Rightarrow> sdk_error" where
  "mapError_heuristics err =
     (let msg = raw_message err; norm = toLowerCase msg
      in if str_includes msg ''EXPIRED'' \<or> str_includes norm ''deadline''
           then new_DeadlineError (match_number deadline_here msg)
         else if str_includes norm ''slippage'' \<or> str_includes msg ''INSUFFICIENT_OUTPUT''
           then new_SlippageError (match_number expected_here msg) (match_number actual_here msg)
                  (match_number tolerance_here msg) None
         else if str_includes norm ''liquidity'' \<or> str_includes msg ''INSUFFICIENT_LIQUIDITY''
           then new_InsufficientLiquidityError (extractPairAddress err) None
         else if str_includes norm ''circuit'' \<or> str_includes norm ''paused''
           then new_CircuitBreakerError (extractPairAddress err)
         else if str_includes msg ''ECONNRESET'' \<or> str_includes msg ''ETIMEDOUT''
                 \<or> str_includes msg ''ENOTFOUND'' \<or> str_includes msg ''ENETUNREACH''
           then new_NetworkError msg
         else if str_includes norm ''rate limit'' \<or> str_includes norm ''too many requests''
                 \<or> str_includes msg ''RPC'' \<or> str_includes msg ''429''
           then new_RpcError msg
         else if str_includes norm ''signing'' \<or> str_includes norm ''signer''
                 \<or> str_includes msg ''NO_SIGNER'' \<or> str_includes norm ''private key''
           then new_SignerError
         else if str_includes norm ''flash loan'' \<or> str_includes norm ''flash_loan''
                 \<or> str_includes norm ''reentrancy'' \<or> str_includes norm ''callback''
           then new_FlashLoanError msg
         else if (str_includes norm ''invalid'' \<and> \<not> str_includes norm ''active'')
                 \<or> str_includes norm ''validation'' \<or> str_includes norm ''required''
                 \<or> str_includes norm ''must be''
           then new_ValidationError msg None
         else if str_includes norm ''pair not found'' \<or> str_includes norm ''no pair''
                 \<or> str_includes msg ''PAIR_NOT_FOUND''
           then new_PairNotFoundError ''unknown'' ''unknown''
         else if str_includes norm ''simulation'' \<or> str_includes msg ''SIMULATION_FAILED''
           then new_SimulationError msg
         else if str_includes norm ''transaction'' \<or> str_includes msg ''TX_FAILED''
                 \<or> str_includes norm ''tx failed''
           then new_TransactionError msg None
         else new_CoralSwapSDKError ''UNKNOWN_ERROR'' msg (Some [(''originalError'', DOriginal err)]))"

definition mapError :: "thrown \<Rightarrow> sdk_error" where
  "mapError err =
     (case err of
        Typed e \<Rightarrow> e
      | Raw r \<Rightarrow>
          (case extractErrorCode r of
             None \<Rightarrow> mapError_heuristics r
           | Some c \<Rightarrow>
               (case mapContractError c r of
                  Some mapped \<Rightarrow> mapped
                | None \<Rightarrow> mapError_heuristics r)))"

section \<open>JavaScript values used by the SDK\<close>

text \<open>
  Exceptions are values.  \<open>JsError m\<close> is \<^verbatim>\<open>new Error(m)\<close>, \<open>RangeError m\<close> is the
  exception the engine raises itself (BigInt division by zero), and \<open>SdkError e\<close> is a
  typed error of the SDK.
\<close>

datatype js_exn = JsError string | RangeError string | SdkError sdk_error

text \<open>
  \<^verbatim>\<open>bigint\<close> is an unbounded integer.  Its \<^verbatim>\<open>/\<close> truncates toward zero and its \<^verbatim>\<open>%\<close>
  takes the sign of the dividend; both raise a RangeError on a zero divisor.
\<close>

definition tdiv :: "int \<Rightarrow> int \<Rightarrow> int" where
  "tdiv a b = sgn a * sgn b * (\<bar>a\<bar> div \<bar>b\<bar>)"


definition bigint_div :: "int \<Rightarrow> int \<Rightarrow> js_exn + int" where
  "bigint_div a b =
     (if b = 0 then Inl (RangeError ''Division by zero'') else Inr (tdiv a b))"


section \<open>AMM quote engine (SwapModule, src/contracts/pair.ts)\<close>

text \<open>
  \<^verbatim>\<open>feeBps\<close> is a JavaScript number; \<^verbatim>\<open>BigInt(10000 - feeBps)\<close> is defined on the
  integer-valued numbers only, so the fee is an \<open>int\<close> here.
\<close>

definition getAmountOut :: "int \<Rightarrow> int \<Rightarrow> int \<Rightarrow> int \<Rightarrow> js_exn + int" where
  "getAmountOut amountIn reserveIn reserveOut feeBps =
     (if amountIn \<le> 0 then Inl (JsError ''Insufficient input amount'')
      else if reserveIn \<le> 0 \<or> reserveOut \<le> 0 then Inl (JsError ''Insufficient liquidity'')
      else
        let feeFactor = 10000 - feeBps;
            amountInWithFee = amountIn * feeFactor;
            numerator = amountInWithFee * reserveOut;
            denominator = reserveIn * 10000 + amountInWithFee
        in bigint_div numerator denominator)"

definition getAmountIn :: "int \<Rightarrow> int \<Rightarrow> int \<Rightarrow> int \<Rightarrow> js_exn + int" where
  "getAmountIn amountOut reserveIn reserveOut feeBps =
     (if amountOut \<le> 0 then Inl (JsError ''Insufficient output amount'')
      else if reserveIn \<le> 0 \<or> reserveOut \<le> 0 then Inl (JsError ''Insufficient liquidity'')
      else if amountOut \<ge> reserveOut then Inl (JsError ''Insufficient reserve for output'')
      else
        let feeFactor = 10000 - feeBps;
            numerator = reserveIn * amountOut * 10000;
            denominator = (reserveOut - amountOut) * feeFactor
        in (case bigint_div numerator denominator of
              Inl e \<Rightarrow> Inl e
            | Inr q \<Rightarrow> Inr (q + 1)))"

text \<open>
  The round trip of tests/swap-math.test.ts: the input required for a desired output is
  quoted back through \<open>getAmountOut\<close> on the same pool.
\<close>

definition roundtrip :: "int \<Rightarrow> int \<Rightarrow> int \<Rightarrow> int \<Rightarrow> js_exn + int" where
  "roundtrip desiredOut reserveIn reserveOut feeBps =
     (case getAmountIn desiredOut reserveIn reserveOut feeBps of
        Inl e \<Rightarrow> Inl e
      | Inr requiredIn \<Rightarrow> getAmountOut requiredIn reserveIn reserveOut feeBps)"

section \<open>Exact rational arithmetic (Fraction, src/utils/math.ts)\<close>


record Fraction =
  numerator :: int
  denominator :: int


text \<open>
  The scaling loop of \<open>toSignificant\<close>: \<^verbatim>\<open>while (n < d) { n *= 10n; shift++; }\<close>.
  It does not return for \<open>n \<le> 0 < d\<close>, so its result is optional.
\<close>

partial_function (option) scale_up :: "int \<Rightarrow> int \<Rightarrow> int \<Rightarrow> (int \<times> int) option" where
  "scale_up n d shift = (if n < d then scale_up (n * 10) d (shift + 1) else Some (n, shift))"

declare scale_up.simps [code]





section \<open>Retry policy (withRetry, src/utils/retry.ts)\<close>


record RetryOptions =
  maxRetries :: int
  retryDelayMs :: rat
  maxRetryDelayMs :: rat








text \<open>
  An options object that also carries a multiplier, as the \<open>RetryOptions\<close> of the spec
  and the client configuration (\<^verbatim>\<open>backoffMultiplier\<close>) do.
\<close>

record RetryOptions_with_multiplier = RetryOptions +
  backoffMultiplier :: rat

subsection \<open>The second retry helper of the repository (printed after src/utils/ledger.ts)\<close>







section \<open>Transaction poller (TransactionPoller.poll, src/utils/retry.ts)\<close>

datatype PollingStrategy = LINEAR | EXPONENTIAL

record PollingOptions =
  strategy :: "PollingStrategy option"
  interval :: "rat option"
  maxAttempts :: "int option"
  backoffFactor :: "rat option"
  maxInterval :: "rat option"

text \<open>
  A status probe \<^verbatim>\<open>server.getTransaction(txHash)\<close> returns a response or throws.  The
  server is the function from the number of earlier probes to the answer of the next.
\<close>

record GetTransactionResponse =
  status :: string
  ledger :: "int option"

datatype probe = Returned GetTransactionResponse | Rejected string

datatype poll_details =
    StatusDetails GetTransactionResponse
  | TimeoutDetails string int PollingStrategy

datatype poll_result =
    PollSuccess string int string
  | PollFailure string string poll_details string

text \<open>
  \<open>PollSuccess txHash ledger txHash\<close> is \<^verbatim>\<open>{success: true, data: {txHash, ledger}, txHash}\<close>;
  \<open>PollFailure code message details txHash\<close> is
  \<^verbatim>\<open>{success: false, error: {code, message, details}, txHash}\<close>.
  The trace counts the probes and lists the delays handed to \<^verbatim>\<open>setTimeout\<close>.
\<close>

record poll_trace =
  probes :: nat
  sleeps :: "rat list"

definition probe_outcome :: "string \<Rightarrow> probe \<Rightarrow> poll_result option" where
  "probe_outcome txHash p =
     (case p of
        Returned st \<Rightarrow>
          if status st = ''SUCCESS''
          then Some (PollSuccess txHash (case ledger st of Some l \<Rightarrow> l | None \<Rightarrow> 0) txHash)
          else if status st = ''FAILED''
          then Some (PollFailure ''TX_FAILED'' ''Transaction failed on-chain'' (StatusDetails st) txHash)
          else None
      | Rejected _ \<Rightarrow> None)"

definition timed_out :: "string \<Rightarrow> int \<Rightarrow> PollingStrategy \<Rightarrow> poll_result" where
  "timed_out txHash maxAtt strat =
     PollFailure ''TX_TIMEOUT''
       (''Transaction confirmation timed out after '' @ bigint_toString maxAtt @ '' attempts'')
       (TimeoutDetails txHash maxAtt strat) txHash"

function poll_loop ::
  "(nat \<Rightarrow> probe) \<Rightarrow> string \<Rightarrow> PollingStrategy \<Rightarrow> int \<Rightarrow> rat \<Rightarrow> rat \<Rightarrow> int \<Rightarrow> rat
     \<Rightarrow> poll_trace \<Rightarrow> poll_result \<times> poll_trace" where
  "poll_loop server txHash strat maxAtt factor maxIntv attempt currentInterval tr =
     (if attempt \<le> maxAtt
      then (case probe_outcome txHash (server (probes tr)) of
              Some r \<Rightarrow> (r, tr\<lparr>probes := probes tr + 1\<rparr>)
            | None \<Rightarrow>
                if attempt < maxAtt
                then poll_loop server txHash strat maxAtt factor maxIntv (attempt + 1)
                       (if strat = EXPONENTIAL then min (currentInterval * factor) maxIntv
                        else currentInterval)
                       (tr\<lparr>probes := probes tr + 1, sleeps := sleeps tr @ [currentInterval]\<rparr>)
                else poll_loop server txHash strat maxAtt factor maxIntv (attempt + 1)
                       currentInterval (tr\<lparr>probes := probes tr + 1\<rparr>))
      else (timed_out txHash maxAtt strat, tr))"
  by pat_completeness auto
termination
  by (relation "measure (\<lambda>(server, txHash, strat, maxAtt, factor, maxIntv, attempt, cur, tr).
                   nat (maxAtt + 1 - attempt))") auto

declare poll_loop.simps [simp del]

text \<open>
  A probe leaves the transaction pending when it throws or returns a status other than
  \<^verbatim>\<open>SUCCESS\<close> and \<^verbatim>\<open>FAILED\<close> (\<^verbatim>\<open>NOT_FOUND\<close>, or a status the poller does not know).
\<close>

definition still_pending :: "probe \<Rightarrow> bool" where
  "still_pending p =
     (case p of
        Returned st \<Rightarrow> status st \<noteq> ''SUCCESS'' \<and> status st \<noteq> ''FAILED''
      | Rejected _ \<Rightarrow> True)"

definition poll :: "(nat \<Rightarrow> probe) \<Rightarrow> string \<Rightarrow> PollingOptions \<Rightarrow> poll_result \<times> poll_trace" where
  "poll server txHash options =
     (let strat = (case strategy options of Some s \<Rightarrow> s | None \<Rightarrow> LINEAR);
          initialInterval = (case interval options of Some i \<Rightarrow> i | None \<Rightarrow> 1000);
          maxAtt = (case maxAttempts options of Some m \<Rightarrow> m | None \<Rightarrow> 30);
          factor = (case backoffFactor options of Some b \<Rightarrow> b | None \<Rightarrow> 2);
          maxIntv = (case maxInterval options of Some m \<Rightarrow> m | None \<Rightarrow> 10000)
      in poll_loop server txHash strat maxAtt factor maxIntv 1 initialInterval
           \<lparr>probes = 0, sleeps = []\<rparr>)"

text \<open>
  The server of the polling test: three \<^verbatim>\<open>NOT_FOUND\<close> answers, then \<^verbatim>\<open>SUCCESS\<close>.
\<close>

definition not_found_then_success :: "nat \<Rightarrow> probe" where
  "not_found_then_success i =
     (if i < 3 then Returned \<lparr>status = ''NOT_FOUND'', ledger = None\<rparr>
      else Returned \<lparr>status = ''SUCCESS'', ledger = Some 101\<rparr>)"

text \<open>
  The server of the test for transport errors: the first probe throws, the second
  reports \<^verbatim>\<open>SUCCESS\<close>; its options set only the interval.
\<close>

definition rpc_error_then_success :: "nat \<Rightarrow> probe" where
  "rpc_error_then_success i =
     (if i = 0 then Rejected ''Network error''
      else Returned \<lparr>status = ''SUCCESS'', ledger = Some 103\<rparr>)"

definition interval_10 :: PollingOptions where
  "interval_10 = \<lparr>strategy = None, interval = Some 10, maxAttempts = None,
                   backoffFactor = None, maxInterval = None\<rparr>"







section \<open>Pool graph and path finder (RouterModule, src/modules/router.ts)\<close>

text \<open>
  The token graph is a \<^verbatim>\<open>Record<string, string[]>\<close>: an association list with one
  entry per key, in insertion order.  \<^verbatim>\<open>graph[t] || []\<close> is \<open>neighbors_of\<close>.
\<close>

type_synonym token_graph = "(string \<times> string list) list"

definition neighbors_of :: "token_graph \<Rightarrow> string \<Rightarrow> string list" where
  "neighbors_of graph t = (case map_of graph t of Some ns \<Rightarrow> ns | None \<Rightarrow> [])"

definition ensure_key :: "token_graph \<Rightarrow> string \<Rightarrow> token_graph" where
  "ensure_key graph t = (if map_of graph t = None then graph @ [(t, [])] else graph)"

definition add_neighbor :: "token_graph \<Rightarrow> string \<Rightarrow> string \<Rightarrow> token_graph" where
  "add_neighbor graph a b =
     (if b \<in> set (neighbors_of graph a) then graph
      else map (\<lambda>(k, ns). if k = a then (k, ns @ [b]) else (k, ns)) graph)"

text \<open>
  \<open>buildTokenGraph\<close> receives, for every pair address, the tokens of the pair or
  \<open>None\<close> where reading them failed; such a pair is left out of the graph.
\<close>

definition buildTokenGraph :: "(string \<times> string) option list \<Rightarrow> token_graph" where
  "buildTokenGraph tokenPairs =
     foldl (\<lambda>graph tokens.
              case tokens of
                None \<Rightarrow> graph
              | Some (token0, token1) \<Rightarrow>
                  add_neighbor
                    (add_neighbor (ensure_key (ensure_key graph token0) token1) token0 token1)
                    token1 token0)
       [] tokenPairs"

text \<open>
  The breadth-first loop of \<open>findAllPaths\<close>: the queue holds the pairs
  \<^verbatim>\<open>{current, path}\<close>; \<open>paths\<close> collects the accepted paths.  Its termination measure
  weighs a queue entry by the size of the search tree below it, bounded through the
  largest neighbour list of the graph.
\<close>

fun max_degree :: "token_graph \<Rightarrow> nat" where
  "max_degree [] = 0"
| "max_degree ((k, ns) # graph) = max (length ns) (max_degree graph)"

fun tree_bound :: "nat \<Rightarrow> nat \<Rightarrow> nat" where
  "tree_bound deg 0 = 1"
| "tree_bound deg (Suc k) = 1 + deg * tree_bound deg k"

definition entry_weight :: "token_graph \<Rightarrow> int \<Rightarrow> string \<times> string list \<Rightarrow> nat" where
  "entry_weight graph maxHops e =
     tree_bound (max_degree graph) (nat (maxHops + 1 - int (length (snd e))))"

lemma neighbors_of_le_max_degree: "length (neighbors_of graph t) \<le> max_degree graph"
proof (induction graph)
  case Nil
  show ?case by (simp add: neighbors_of_def)
next
  case (Cons kv graph)
  obtain k ns where kv: "kv = (k, ns)" by (cases kv)
  show ?case
  proof (cases "k = t")
    case True
    then show ?thesis using kv by (simp add: neighbors_of_def)
  next
    case False
    then have "neighbors_of (kv # graph) t = neighbors_of graph t"
      using kv by (simp add: neighbors_of_def)
    with Cons.IH show ?thesis using kv by simp
  qed
qed

lemma children_weight:
  assumes "\<not> maxHops < int (length path)"
  shows "sum_list (map (entry_weight graph maxHops)
                     (map (\<lambda>n. (n, path @ [n]))
                        (filter (\<lambda>n. n \<notin> set path) (neighbors_of graph current))))
         < entry_weight graph maxHops (current, path)"
proof -
  let ?k = "nat (maxHops - int (length path))"
  let ?cs = "filter (\<lambda>n. n \<notin> set path) (neighbors_of graph current)"
  have parent: "nat (maxHops + 1 - int (length path)) = Suc ?k"
    using assms by simp
  have child: "nat (maxHops + 1 - int (length (path @ [n]))) = ?k" for n
    by simp
  have "sum_list (map (entry_weight graph maxHops) (map (\<lambda>n. (n, path @ [n])) ?cs))
          = sum_list (map (\<lambda>n. tree_bound (max_degree graph) ?k) ?cs)"
    unfolding entry_weight_def by (simp add: comp_def)
  also have "\<dots> = length ?cs * tree_bound (max_degree graph) ?k"
    by (simp add: sum_list_triv)
  also have "\<dots> \<le> max_degree graph * tree_bound (max_degree graph) ?k"
  proof (rule mult_right_mono)
    have "length ?cs \<le> length (neighbors_of graph current)" by simp
    also have "\<dots> \<le> max_degree graph" by (rule neighbors_of_le_max_degree)
    finally show "length ?cs \<le> max_degree graph" .
  qed simp
  also have "\<dots> < entry_weight graph maxHops (current, path)"
    unfolding entry_weight_def using parent by simp
  finally show ?thesis .
qed

lemma entry_weight_pos: "0 < entry_weight graph maxHops e"
  unfolding entry_weight_def
  by (cases "nat (maxHops + 1 - int (length (snd e)))") simp_all

function findAllPaths_loop ::
  "token_graph \<Rightarrow> string \<Rightarrow> int \<Rightarrow> (string \<times> string list) list \<Rightarrow> string list list
     \<Rightarrow> string list list" where
  "findAllPaths_loop graph end maxHops [] paths = paths"
| "findAllPaths_loop graph end maxHops ((current, path) # queue) paths =
     (if current = end
      then (if length path > 1
            then findAllPaths_loop graph end maxHops queue (paths @ [path])
            else findAllPaths_loop graph end maxHops queue paths)
      else if int (length path) > maxHops
      then findAllPaths_loop graph end maxHops queue paths
      else findAllPaths_loop graph end maxHops
             (queue @ map (\<lambda>neighbor. (neighbor, path @ [neighbor]))
                        (filter (\<lambda>neighbor. neighbor \<notin> set path) (neighbors_of graph current)))
             paths)"
  by pat_completeness auto
termination
proof (relation "measure (\<lambda>(graph, end, maxHops, queue, paths).
                   sum_list (map (entry_weight graph maxHops) queue))", goal_cases)
  case 1
  show ?case by simp
next
  case (2 graph "end" maxHops current path queue paths)
  then show ?case using entry_weight_pos [of graph maxHops "(current, path)"] by simp
next
  case (3 graph "end" maxHops current path queue paths)
  then show ?case using entry_weight_pos [of graph maxHops "(current, path)"] by simp
next
  case (4 graph "end" maxHops current path queue paths)
  then show ?case using entry_weight_pos [of graph maxHops "(current, path)"] by simp
next
  case (5 graph "end" maxHops current path queue paths)
  then show ?case using children_weight [of maxHops path graph current] by simp
qed

definition findAllPaths :: "string \<Rightarrow> string \<Rightarrow> token_graph \<Rightarrow> int \<Rightarrow> string list list" where
  "findAllPaths start end graph maxHops =
     findAllPaths_loop graph end maxHops [(start, [start])] []"










section \<open>Quotes and route selection (SwapModule.getQuote, RouterModule.findOptimalPath)\<close>

datatype TradeType = EXACT_IN | EXACT_OUT

text \<open>
  The collaborators a quote reads: the factory's pair list, the tokens, reserves and
  dynamic fee of a pair, the pair address of two tokens, and the client's default
  slippage and deadline.  Every read may throw.
\<close>

record pool_oracle =
  getAllPairs :: "js_exn + string list"
  getTokens :: "string \<Rightarrow> js_exn + (string \<times> string)"
  getPairAddress :: "string \<Rightarrow> string \<Rightarrow> js_exn + string option"
  getReserves :: "string \<Rightarrow> js_exn + (int \<times> int)"
  getDynamicFee :: "string \<Rightarrow> js_exn + int"
  defaultSlippageBps :: "int option"
  getDeadline :: int

record SwapRequest =
  req_tokenIn :: string
  req_tokenOut :: string
  req_amount :: int
  req_tradeType :: TradeType
  req_path :: "string list option"
  req_slippageBps :: "int option"
  req_deadline :: "int option"

record HopResult =
  hop_tokenIn :: string
  hop_tokenOut :: string
  hop_amountIn :: int
  hop_amountOut :: int
  hop_feeBps :: int
  hop_feeAmount :: int
  hop_priceImpactBps :: int

record SwapQuote =
  tokenIn :: string
  tokenOut :: string
  amountIn :: int
  amountOut :: int
  amountOutMin :: int
  priceImpactBps :: int
  feeBps :: int
  feeAmount :: int
  path :: "string list"
  deadline :: int
  hops :: "HopResult list option"

definition calculatePriceImpact :: "int \<Rightarrow> int \<Rightarrow> int \<Rightarrow> int \<Rightarrow> int" where
  "calculatePriceImpact amtIn amtOut reserveIn reserveOut =
     (if reserveIn = 0 \<or> reserveOut = 0 then 10000
      else
        let idealOut = tdiv (amtIn * reserveOut) reserveIn
        in if idealOut = 0 then 10000
           else tdiv ((idealOut - amtOut) * 10000) idealOut)"

text \<open>\<^verbatim>\<open>DEFAULTS.slippageBps\<close> of the configuration.\<close>

definition DEFAULT_slippageBps :: int where
  "DEFAULT_slippageBps = 50"

definition getQuote :: "pool_oracle \<Rightarrow> SwapRequest \<Rightarrow> js_exn + SwapQuote" where
  "getQuote client request =
     (case getPairAddress client (req_tokenIn request) (req_tokenOut request) of
        Inl e \<Rightarrow> Inl e
      | Inr None \<Rightarrow>
          Inl (JsError (''No pair found for '' @ req_tokenIn request @ '' / ''
                          @ req_tokenOut request))
      | Inr (Some pairAddress) \<Rightarrow>
          (case getReserves client pairAddress of
             Inl e \<Rightarrow> Inl e
           | Inr (reserve0, reserve1) \<Rightarrow>
               (case getDynamicFee client pairAddress of
                  Inl e \<Rightarrow> Inl e
                | Inr dynamicFee \<Rightarrow>
                    (case getTokens client pairAddress of
                       Inl e \<Rightarrow> Inl e
                     | Inr (token0, token1) \<Rightarrow>
                         let isToken0In = (token0 = req_tokenIn request);
                             reserveIn = (if isToken0In then reserve0 else reserve1);
                             reserveOut = (if isToken0In then reserve1 else reserve0);
                             amounts =
                               (if req_tradeType request = EXACT_IN
                                then (case getAmountOut (req_amount request) reserveIn reserveOut
                                             dynamicFee of
                                        Inl e \<Rightarrow> Inl e
                                      | Inr out \<Rightarrow> Inr (req_amount request, out))
                                else (case getAmountIn (req_amount request) reserveIn reserveOut
                                             dynamicFee of
                                        Inl e \<Rightarrow> Inl e
                                      | Inr inp \<Rightarrow> Inr (inp, req_amount request)))
                         in (case amounts of
                               Inl e \<Rightarrow> Inl e
                             | Inr (amtIn, amtOut) \<Rightarrow>
                                 let slippageBps =
                                       (case req_slippageBps request of
                                          Some s \<Rightarrow> s
                                        | None \<Rightarrow>
                                            (case defaultSlippageBps client of
                                               Some s \<Rightarrow> s
                                             | None \<Rightarrow> DEFAULT_slippageBps))
                                 in Inr \<lparr>tokenIn = req_tokenIn request,
                                         tokenOut = req_tokenOut request,
                                         amountIn = amtIn,
                                         amountOut = amtOut,
                                         amountOutMin = amtOut - tdiv (amtOut * slippageBps) 10000,
                                         priceImpactBps =
                                           calculatePriceImpact amtIn amtOut reserveIn reserveOut,
                                         feeBps = dynamicFee,
                                         feeAmount = tdiv (amtIn * dynamicFee) 10000,
                                         path = [req_tokenIn request, req_tokenOut request],
                                         deadline = (case req_deadline request of
                                                       Some d \<Rightarrow> d
                                                     | None \<Rightarrow> getDeadline client),
                                         hops = None\<rparr>)))))"

subsection \<open>The multi-hop quote\<close>

text \<open>
  Modelled from the spec: \<^verbatim>\<open>SwapModule.getMultiHopQuote\<close> is called by
  \<open>findOptimalPath\<close> but its body is not among the sources.  Section 4.4 of the spec:
  for a path longer than two tokens the quote is chained, each hop's output is the next
  hop's input, the per-hop fee and price-impact records are collected in the \<open>hops\<close>
  list, and an exact-output multi-hop request is rejected with a validation error.  Each
  hop is priced as section 4.2 prices a single pool, through the same reads as
  \<open>getQuote\<close>.  The spec gives no formula for the aggregate fee and price impact shown
  with the quote: they are the parameter \<open>aggregate\<close>
  (fee in basis points, fee amount, price impact).  The request type of the sources
  asks for at least three tokens (src/types/pool.ts), so a shorter path is rejected.
\<close>

definition price_hop :: "pool_oracle \<Rightarrow> string \<Rightarrow> string \<Rightarrow> int \<Rightarrow> js_exn + HopResult" where
  "price_hop client tIn tOut amt =
     (case getPairAddress client tIn tOut of
        Inl e \<Rightarrow> Inl e
      | Inr None \<Rightarrow> Inl (JsError (''No pair found for '' @ tIn @ '' / '' @ tOut))
      | Inr (Some pairAddress) \<Rightarrow>
          (case getReserves client pairAddress of
             Inl e \<Rightarrow> Inl e
           | Inr (reserve0, reserve1) \<Rightarrow>
               (case getDynamicFee client pairAddress of
                  Inl e \<Rightarrow> Inl e
                | Inr dynamicFee \<Rightarrow>
                    (case getTokens client pairAddress of
                       Inl e \<Rightarrow> Inl e
                     | Inr (token0, token1) \<Rightarrow>
                         let isToken0In = (token0 = tIn);
                             reserveIn = (if isToken0In then reserve0 else reserve1);
                             reserveOut = (if isToken0In then reserve1 else reserve0)
                         in (case getAmountOut amt reserveIn reserveOut dynamicFee of
                               Inl e \<Rightarrow> Inl e
                             | Inr out \<Rightarrow>
                                 Inr \<lparr>hop_tokenIn = tIn, hop_tokenOut = tOut,
                                      hop_amountIn = amt, hop_amountOut = out,
                                      hop_feeBps = dynamicFee,
                                      hop_feeAmount = tdiv (amt * dynamicFee) 10000,
                                      hop_priceImpactBps =
                                        calculatePriceImpact amt out reserveIn reserveOut\<rparr>)))))"

fun chain_hops :: "pool_oracle \<Rightarrow> string list \<Rightarrow> int \<Rightarrow> js_exn + HopResult list" where
  "chain_hops client (a # b # rest) amt =
     (case price_hop client a b amt of
        Inl e \<Rightarrow> Inl e
      | Inr h \<Rightarrow>
          (case chain_hops client (b # rest) (hop_amountOut h) of
             Inl e \<Rightarrow> Inl e
           | Inr hs \<Rightarrow> Inr (h # hs)))"
| "chain_hops client [a] amt = Inr []"
| "chain_hops client [] amt = Inr []"

record MultiHopSwapRequest =
  mh_path :: "string list"
  mh_amount :: int
  mh_tradeType :: TradeType
  mh_slippageBps :: "int option"
  mh_deadline :: "int option"

definition getMultiHopQuote ::
  "(HopResult list \<Rightarrow> int \<times> int \<times> int) \<Rightarrow> pool_oracle \<Rightarrow> MultiHopSwapRequest
     \<Rightarrow> js_exn + SwapQuote" where
  "getMultiHopQuote aggregate client request =
     (if mh_tradeType request \<noteq> EXACT_IN
      then Inl (SdkError (new_ValidationError
                  ''Only EXACT_IN is supported for multi-hop swaps'' None))
      else if length (mh_path request) < 3
      then Inl (SdkError (new_ValidationError
                  ''Multi-hop path must contain at least 3 tokens'' None))
      else (case chain_hops client (mh_path request) (mh_amount request) of
              Inl e \<Rightarrow> Inl e
            | Inr hs \<Rightarrow>
                let amtOut = hop_amountOut (last hs);
                    slippageBps =
                      (case mh_slippageBps request of
                         Some s \<Rightarrow> s
                       | None \<Rightarrow>
                           (case defaultSlippageBps client of
                              Some s \<Rightarrow> s
                            | None \<Rightarrow> DEFAULT_slippageBps))
                in Inr \<lparr>tokenIn = hd (mh_path request),
                        tokenOut = last (mh_path request),
                        amountIn = mh_amount request,
                        amountOut = amtOut,
                        amountOutMin = amtOut - tdiv (amtOut * slippageBps) 10000,
                        priceImpactBps = snd (snd (aggregate hs)),
                        feeBps = fst (aggregate hs),
                        feeAmount = fst (snd (aggregate hs)),
                        path = mh_path request,
                        deadline = (case mh_deadline request of
                                      Some d \<Rightarrow> d
                                    | None \<Rightarrow> getDeadline client),
                        hops = Some hs\<rparr>))"

subsection \<open>findOptimalPath\<close>

text \<open>
  The quote of one candidate path, as the loop body of \<open>findOptimalPath\<close> asks for it:
  \<open>getQuote\<close> for a path of two tokens, \<open>getMultiHopQuote\<close> otherwise.
\<close>

definition quote_path ::
  "(HopResult list \<Rightarrow> int \<times> int \<times> int) \<Rightarrow> pool_oracle \<Rightarrow> int \<Rightarrow> TradeType \<Rightarrow> string list
     \<Rightarrow> js_exn + SwapQuote" where
  "quote_path aggregate client amount tradeType p =
     (if length p = 2
      then getQuote client
             \<lparr>req_tokenIn = p ! 0, req_tokenOut = p ! 1, req_amount = amount,
              req_tradeType = tradeType, req_path = Some p,
              req_slippageBps = None, req_deadline = None\<rparr>
      else getMultiHopQuote aggregate client
             \<lparr>mh_path = p, mh_amount = amount, mh_tradeType = tradeType,
              mh_slippageBps = None, mh_deadline = None\<rparr>)"

text \<open>
  The selection loop: a path whose quote throws is skipped; a quote replaces the best
  one so far only when its \<open>amountOut\<close> is strictly greater.
\<close>

fun select_best ::
  "(string list \<Rightarrow> js_exn + SwapQuote) \<Rightarrow> string list list \<Rightarrow> (string list \<times> SwapQuote) option
     \<Rightarrow> (string list \<times> SwapQuote) option" where
  "select_best quote_of [] bestPath = bestPath"
| "select_best quote_of (p # ps) bestPath =
     (case quote_of p of
        Inl e \<Rightarrow> select_best quote_of ps bestPath
      | Inr quote \<Rightarrow>
          (case bestPath of
             None \<Rightarrow> select_best quote_of ps (Some (p, quote))
           | Some (bp, bq) \<Rightarrow>
               if amountOut quote > amountOut bq
               then select_best quote_of ps (Some (p, quote))
               else select_best quote_of ps bestPath))"

text \<open>
  A pair whose tokens cannot be read is dropped from the graph
  (\<^verbatim>\<open>try { ... } catch { return null; }\<close> in \<open>buildTokenGraph\<close>).
\<close>

definition read_tokens :: "pool_oracle \<Rightarrow> string \<Rightarrow> (string \<times> string) option" where
  "read_tokens client addr = (case getTokens client addr of Inl e \<Rightarrow> None | Inr t \<Rightarrow> Some t)"

definition candidate_paths :: "pool_oracle \<Rightarrow> string list \<Rightarrow> string \<Rightarrow> string \<Rightarrow> string list list" where
  "candidate_paths client allPairs tIn tOut =
     findAllPaths tIn tOut (buildTokenGraph (map (read_tokens client) allPairs)) 3"

definition findOptimalPath ::
  "(HopResult list \<Rightarrow> int \<times> int \<times> int) \<Rightarrow> pool_oracle \<Rightarrow> string \<Rightarrow> string \<Rightarrow> int \<Rightarrow> TradeType
     \<Rightarrow> js_exn + (string list \<times> SwapQuote) option" where
  "findOptimalPath aggregate client tIn tOut amount tradeType =
     (if tradeType \<noteq> EXACT_IN
      then Inl (SdkError (new_ValidationError
                  ''Only EXACT_IN is currently supported for pathfinding'' None))
      else (case getAllPairs client of
              Inl e \<Rightarrow> Inl e
            | Inr allPairs \<Rightarrow>
                let paths = candidate_paths client allPairs tIn tOut
                in if paths = [] then Inr None
                   else Inr (select_best (quote_path aggregate client amount tradeType)
                               paths None)))"

text \<open>
  The mock client of tests/router-pathfinding.test.ts: a list of pairs with their tokens,
  reserves and fee, a default slippage of 50 and a fixed deadline.
\<close>

record mock_pair =
  address :: string
  token0 :: string
  token1 :: string
  reserve0 :: int
  reserve1 :: int
  mock_feeBps :: int

definition find_pair :: "mock_pair list \<Rightarrow> string \<Rightarrow> mock_pair option" where
  "find_pair pairs addr = find (\<lambda>p. address p = addr) pairs"

definition buildMockClient :: "mock_pair list \<Rightarrow> pool_oracle" where
  "buildMockClient pairs =
     \<lparr>getAllPairs = Inr (map address pairs),
      getTokens = (\<lambda>addr. case find_pair pairs addr of
                             Some p \<Rightarrow> Inr (token0 p, token1 p)
                           | None \<Rightarrow> Inl (JsError ''Cannot read properties of undefined'')),
      getPairAddress = (\<lambda>a b. Inr (map_option address
                          (find (\<lambda>p. (token0 p = a \<and> token1 p = b) \<or> (token0 p = b \<and> token1 p = a))
                             pairs))),
      getReserves = (\<lambda>addr. case find_pair pairs addr of
                               Some p \<Rightarrow> Inr (reserve0 p, reserve1 p)
                             | None \<Rightarrow> Inl (JsError ''Cannot read properties of undefined'')),
      getDynamicFee = (\<lambda>addr. case find_pair pairs addr of
                                 Some p \<Rightarrow> Inr (mock_feeBps p)
                               | None \<Rightarrow> Inl (JsError ''Cannot read properties of undefined'')),
      defaultSlippageBps = Some 50,
      getDeadline = 9999999999\<rparr>"

section \<open>Integer division facts\<close>

lemma bigint_div_nonneg:
  "0 \<le> a \<Longrightarrow> 0 < b \<Longrightarrow> bigint_div a b = Inr (a div b)"
  by (cases "a = 0") (simp_all add: bigint_div_def tdiv_def)

lemma int_div_times_le:
  fixes a b :: int
  assumes "0 < b"
  shows "(a div b) * b \<le> a"
proof -
  have "a = (a div b) * b + a mod b" by simp
  moreover have "0 \<le> a mod b" using assms by simp
  ultimately show ?thesis by linarith
qed

lemma int_lt_succ_div_times:
  fixes a b :: int
  assumes "0 < b"
  shows "a < (a div b + 1) * b"
proof -
  have "a = (a div b) * b + a mod b" by simp
  moreover have "a mod b < b" using assms by simp
  moreover have "(a div b + 1) * b = (a div b) * b + b" by (simp add: algebra_simps)
  ultimately show ?thesis by linarith
qed

lemma int_le_div_if:
  fixes a b k :: int
  assumes "0 < b" and "k * b \<le> a"
  shows "k \<le> a div b"
proof (rule ccontr)
  assume "\<not> k \<le> a div b"
  then have "a div b + 1 \<le> k" by simp
  then have "(a div b + 1) * b \<le> k * b"
    using assms(1) by (simp add: mult_right_mono)
  with assms(2) int_lt_succ_div_times [OF assms(1), of a] show False by linarith
qed

lemma int_div_less_if:
  fixes a b k :: int
  assumes "0 < b" and "a < k * b"
  shows "a div b < k"
proof (rule ccontr)
  assume "\<not> a div b < k"
  then have "k \<le> a div b" by simp
  then have "k * b \<le> (a div b) * b"
    using assms(1) by (simp add: mult_right_mono)
  with assms(2) int_div_times_le [OF assms(1), of a] show False by linarith
qed

section \<open>Properties of the quote engine\<close>

lemma getAmountOut_value:
  assumes "0 < amtIn" "0 < reserveIn" "0 < reserveOut" "fee \<le> 10000"
  shows "getAmountOut amtIn reserveIn reserveOut fee =
           Inr ((amtIn * (10000 - fee) * reserveOut)
                  div (reserveIn * 10000 + amtIn * (10000 - fee)))"
proof -
  have f: "0 \<le> amtIn * (10000 - fee)" using assms by simp
  then have n: "0 \<le> amtIn * (10000 - fee) * reserveOut" using assms by simp
  have d: "0 < reserveIn * 10000 + amtIn * (10000 - fee)" using f assms by linarith
  show ?thesis
    using assms bigint_div_nonneg [OF n d] by (simp add: getAmountOut_def Let_def)
qed

lemma quote_bounds:
  fixes a f rin rout :: int
  assumes "0 < a" "0 < rin" "0 < rout" "0 \<le> f" "f \<le> 10000"
  defines "out \<equiv> (a * f * rout) div (rin * 10000 + a * f)"
  shows "0 \<le> out" and "out < rout" and "out * (rin + a) \<le> a * rout"
proof -
  let ?D = "rin * 10000 + a * f"
  have af: "0 \<le> a * f" using assms by simp
  have D: "0 < ?D" using af assms by linarith
  have afr: "0 \<le> a * f * rout" using af assms by simp
  show nonneg: "0 \<le> out"
    unfolding out_def using D afr pos_imp_zdiv_nonneg_iff [of ?D "a * f * rout"] by blast
  have "a * f * rout < rout * ?D"
  proof -
    have "rout * ?D = a * f * rout + rout * rin * 10000" by (simp add: algebra_simps)
    moreover have "0 < rout * rin * 10000" using assms by simp
    ultimately show ?thesis by linarith
  qed
  then show less: "out < rout"
    unfolding out_def using D by (intro int_div_less_if) simp_all
  have low: "out * ?D \<le> a * f * rout"
    unfolding out_def by (rule int_div_times_le [OF D])
  have "out * rin * 10000 = out * ?D - out * (a * f)" by (simp add: algebra_simps)
  also have "\<dots> \<le> a * f * rout - out * (a * f)" using low by simp
  also have "\<dots> = (a * (rout - out)) * f" by (simp add: algebra_simps)
  also have "\<dots> \<le> (a * (rout - out)) * 10000"
  proof (rule mult_left_mono)
    show "f \<le> 10000" by fact
    show "0 \<le> a * (rout - out)" using less assms by simp
  qed
  finally have "out * rin * 10000 \<le> (a * (rout - out)) * 10000" .
  then have "out * rin \<le> a * (rout - out)" by simp
  then show "out * (rin + a) \<le> a * rout" by (simp add: algebra_simps)
qed

text \<open>
  C1.  For a positive input, positive reserves and a fee of 0 to 10000 basis points,
  \<open>getAmountOut\<close> returns an output and the constant product does not decrease:
  \<open>(reserveIn + amtIn) * (reserveOut - output) \<ge> reserveIn * reserveOut\<close>.
  The amounts are unbounded integers, so the property covers the 128-bit signed range.
\<close>

theorem getAmountOut_preserves_k:
  assumes "0 < amtIn" and "0 < reserveIn" and "0 < reserveOut"
    and "0 \<le> fee" and "fee \<le> 10000"
  shows "\<exists>out. getAmountOut amtIn reserveIn reserveOut fee = Inr out \<and>
           reserveIn * reserveOut \<le> (reserveIn + amtIn) * (reserveOut - out)"
proof -
  let ?out = "(amtIn * (10000 - fee) * reserveOut)
                div (reserveIn * 10000 + amtIn * (10000 - fee))"
  have v: "getAmountOut amtIn reserveIn reserveOut fee = Inr ?out"
    using assms by (intro getAmountOut_value) simp_all
  have "?out * (reserveIn + amtIn) \<le> amtIn * reserveOut"
    using assms by (intro quote_bounds(3)) simp_all
  then have "reserveIn * reserveOut \<le> (reserveIn + amtIn) * (reserveOut - ?out)"
    by (simp add: algebra_simps)
  with v show ?thesis by blast
qed

theorem getAmountOut_preserves_k_witness:
  "\<exists>out. getAmountOut 10000000 1000000000 1000000000 30 = Inr out \<and>
     (1000000000::int) * 1000000000 \<le> (1000000000 + 10000000) * (1000000000 - out)"
  using getAmountOut_preserves_k [of 10000000 1000000000 1000000000 30] by simp

text \<open>
  C10.  Under the same preconditions the quoted output is at least 0 and strictly below
  the output reserve: one exact-in quote cannot drain the pool.
\<close>

theorem getAmountOut_below_reserve:
  assumes "0 < amtIn" and "0 < reserveIn" and "0 < reserveOut"
    and "0 \<le> fee" and "fee \<le> 10000"
  shows "\<exists>out. getAmountOut amtIn reserveIn reserveOut fee = Inr out \<and>
           0 \<le> out \<and> out < reserveOut"
proof -
  let ?out = "(amtIn * (10000 - fee) * reserveOut)
                div (reserveIn * 10000 + amtIn * (10000 - fee))"
  have v: "getAmountOut amtIn reserveIn reserveOut fee = Inr ?out"
    using assms by (intro getAmountOut_value) simp_all
  have "0 \<le> ?out" using assms by (intro quote_bounds(1)) simp_all
  moreover have "?out < reserveOut" using assms by (intro quote_bounds(2)) simp_all
  ultimately show ?thesis using v by blast
qed

theorem getAmountOut_below_reserve_witness:
  "\<exists>out. getAmountOut 5000 10000 10000 30 = Inr out \<and> 0 \<le> out \<and> out < 10000"
  using getAmountOut_below_reserve [of 5000 10000 10000 30] by simp

lemma getAmountIn_value:
  assumes "0 < amtOut" "0 < reserveIn" "amtOut < reserveOut" "fee < 10000"
  shows "getAmountIn amtOut reserveIn reserveOut fee =
           Inr ((reserveIn * amtOut * 10000)
                  div ((reserveOut - amtOut) * (10000 - fee)) + 1)"
proof -
  have n: "0 \<le> reserveIn * amtOut * 10000" using assms by simp
  have d: "0 < (reserveOut - amtOut) * (10000 - fee)" using assms by simp
  show ?thesis
    using assms bigint_div_nonneg [OF n d] by (simp add: getAmountIn_def Let_def)
qed

lemma required_input_covers:
  fixes y f rin rout :: int
  assumes "0 < y" "0 < rin" "y < rout" "0 < f"
  defines "x \<equiv> (rin * y * 10000) div ((rout - y) * f) + 1"
  shows "0 < x" and "y \<le> (x * f * rout) div (rin * 10000 + x * f)"
proof -
  let ?D = "(rout - y) * f"
  have D: "0 < ?D" using assms by simp
  have "0 \<le> rin * y * 10000" using assms by simp
  then have "0 \<le> (rin * y * 10000) div ?D"
    using D pos_imp_zdiv_nonneg_iff [of ?D "rin * y * 10000"] by blast
  then show x: "0 < x" unfolding x_def by simp
  have up: "rin * y * 10000 < x * ?D"
    unfolding x_def by (rule int_lt_succ_div_times [OF D])
  have xf: "0 < x * f" using x assms by simp
  have den: "0 < rin * 10000 + x * f" using xf assms by simp
  have "y * (rin * 10000 + x * f) = rin * y * 10000 + x * f * y" by (simp add: algebra_simps)
  also have "\<dots> \<le> x * ?D + x * f * y" using up by simp
  also have "\<dots> = x * f * rout" by (simp add: algebra_simps)
  finally have "y * (rin * 10000 + x * f) \<le> x * f * rout" .
  then show "y \<le> (x * f * rout) div (rin * 10000 + x * f)"
    by (rule int_le_div_if [OF den])
qed

text \<open>
  C3 (as the code has it).  For positive reserves, a desired output with
  \<open>0 < amtOut < reserveOut\<close> and a fee of 0 to 9999 basis points, \<open>getAmountIn\<close> returns
  an input, and quoting that input back through \<open>getAmountOut\<close> on the same pool returns
  at least \<open>amtOut\<close>.
\<close>

theorem roundtrip_never_under_delivers:
  assumes "0 < amtOut" and "0 < reserveIn" and "amtOut < reserveOut"
    and "0 \<le> fee" and "fee < 10000"
  shows "\<exists>requiredIn actualOut.
           getAmountIn amtOut reserveIn reserveOut fee = Inr requiredIn \<and>
           getAmountOut requiredIn reserveIn reserveOut fee = Inr actualOut \<and>
           roundtrip amtOut reserveIn reserveOut fee = Inr actualOut \<and>
           amtOut \<le> actualOut"
proof -
  let ?f = "10000 - fee"
  let ?x = "(reserveIn * amtOut * 10000) div ((reserveOut - amtOut) * ?f) + 1"
  let ?out = "(?x * ?f * reserveOut) div (reserveIn * 10000 + ?x * ?f)"
  have f: "0 < ?f" using assms by simp
  have rout: "0 < reserveOut" using assms by simp
  have gi: "getAmountIn amtOut reserveIn reserveOut fee = Inr ?x"
    using assms by (intro getAmountIn_value) simp_all
  have x: "0 < ?x"
    using assms(1,2,3) f by (rule required_input_covers(1))
  have go: "getAmountOut ?x reserveIn reserveOut fee = Inr ?out"
    using x assms(2) rout assms(5) by (intro getAmountOut_value) simp_all
  have le: "amtOut \<le> ?out"
    using assms(1,2,3) f by (rule required_input_covers(2))
  have rt: "roundtrip amtOut reserveIn reserveOut fee = Inr ?out"
    by (simp add: roundtrip_def gi go)
  from gi go rt le show ?thesis by blast
qed

theorem roundtrip_never_under_delivers_witness:
  "\<exists>requiredIn actualOut.
     getAmountIn 1000000 1000000000 1000000000 30 = Inr requiredIn \<and>
     getAmountOut requiredIn 1000000000 1000000000 30 = Inr actualOut \<and>
     roundtrip 1000000 1000000000 1000000000 30 = Inr actualOut \<and>
     1000000 \<le> actualOut"
  using roundtrip_never_under_delivers [of 1000000 1000000000 1000000000 30] by simp

text \<open>
  At a fee of 10000 basis points the fee factor is zero, the denominator of
  \<open>getAmountIn\<close> is zero, and the BigInt division raises: there is no input to feed back.
\<close>

theorem roundtrip_full_fee_raises:
  "roundtrip 1 1000 1000 10000 = Inl (RangeError ''Division by zero'')"
  by (simp add: roundtrip_def getAmountIn_def bigint_div_def)

section \<open>Properties of the significant-digit rendering\<close>

lemma scale_up_returns:
  assumes "0 < n"
  shows "\<exists>r. scale_up n d shift = Some r"
  using assms
proof (induction "nat (d - n)" arbitrary: n shift rule: less_induct)
  case less
  show ?case
  proof (cases "n < d")
    case True
    have "nat (d - n * 10) < nat (d - n)" using True less.prems by simp
    moreover have "0 < n * 10" using less.prems by simp
    ultimately obtain r where "scale_up (n * 10) d (shift + 1) = Some r"
      using less.hyps by blast
    with True show ?thesis by (subst scale_up.simps) simp
  next
    case False
    then show ?thesis by (subst scale_up.simps) simp
  qed
qed


section \<open>Properties of the transaction poller\<close>

lemma probe_outcome_pending: "still_pending p \<Longrightarrow> probe_outcome txHash p = None"
  by (cases p) (simp_all add: still_pending_def probe_outcome_def)

lemma poll_loop_terminal:
  assumes "\<forall>i<n. still_pending (server (probes tr + i))"
    and "probe_outcome txHash (server (probes tr + n)) = Some r"
    and "attempt + int n \<le> maxAtt"
  shows "fst (poll_loop server txHash strat maxAtt factor maxIntv attempt cur tr) = r
         \<and> probes (snd (poll_loop server txHash strat maxAtt factor maxIntv attempt cur tr))
             = probes tr + n + 1
         \<and> (strat = LINEAR \<longrightarrow>
              sleeps (snd (poll_loop server txHash strat maxAtt factor maxIntv attempt cur tr))
                = sleeps tr @ replicate n cur)"
  using assms
proof (induction n arbitrary: attempt cur tr)
  case 0
  then have a: "attempt \<le> maxAtt" by simp
  from 0 have o: "probe_outcome txHash (server (probes tr)) = Some r" by simp
  have eq: "poll_loop server txHash strat maxAtt factor maxIntv attempt cur tr
          = (r, tr\<lparr>probes := probes tr + 1\<rparr>)"
    by (subst poll_loop.simps) (simp add: a o)
  show ?case unfolding eq by simp
next
  case (Suc n)
  have a: "attempt < maxAtt" using Suc.prems(3) by simp
  have "still_pending (server (probes tr + 0))" using Suc.prems(1) by blast
  then have p0: "probe_outcome txHash (server (probes tr)) = None"
    by (simp add: probe_outcome_pending)
  let ?cur = "if strat = EXPONENTIAL then min (cur * factor) maxIntv else cur"
  let ?tr = "tr\<lparr>probes := probes tr + 1, sleeps := sleeps tr @ [cur]\<rparr>"
  have step: "poll_loop server txHash strat maxAtt factor maxIntv attempt cur tr =
              poll_loop server txHash strat maxAtt factor maxIntv (attempt + 1) ?cur ?tr"
    using a p0 by (subst poll_loop.simps) simp
  have pend: "\<forall>i<n. still_pending (server (probes ?tr + i))"
  proof (intro allI impI)
    fix i assume "i < n"
    then have "Suc i < Suc n" by simp
    with Suc.prems(1) have "still_pending (server (probes tr + Suc i))" by blast
    then show "still_pending (server (probes ?tr + i))" by simp
  qed
  have tm: "probe_outcome txHash (server (probes ?tr + n)) = Some r"
    using Suc.prems(2) by simp
  have bound: "attempt + 1 + int n \<le> maxAtt" using Suc.prems(3) by simp
  from Suc.IH [OF pend tm bound, of ?cur]
  show ?case unfolding step by (auto simp: replicate_append_same)
qed

lemma poll_loop_exhausts:
  assumes "\<forall>i<nat (maxAtt + 1 - attempt). still_pending (server (probes tr + i))"
  shows "fst (poll_loop server txHash strat maxAtt factor maxIntv attempt cur tr)
           = timed_out txHash maxAtt strat
         \<and> probes (snd (poll_loop server txHash strat maxAtt factor maxIntv attempt cur tr))
           = probes tr + nat (maxAtt + 1 - attempt)"
  using assms
proof (induction server txHash strat maxAtt factor maxIntv attempt cur tr rule: poll_loop.induct)
  case (1 server txHash strat maxAtt factor maxIntv attempt cur tr)
  show ?case
  proof (cases "attempt \<le> maxAtt")
    case False
    then show ?thesis by (subst (1 2) poll_loop.simps) simp
  next
    case True
    then have pos: "0 < nat (maxAtt + 1 - attempt)" by simp
    have p0: "probe_outcome txHash (server (probes tr)) = None"
      using "1.prems" pos by (intro probe_outcome_pending) (metis add.right_neutral)
    have nxt: "nat (maxAtt + 1 - attempt) = Suc (nat (maxAtt + 1 - (attempt + 1)))"
      using True by simp
    show ?thesis
    proof (cases "attempt < maxAtt")
      case lt: True
      let ?cur = "if strat = EXPONENTIAL then min (cur * factor) maxIntv else cur"
      let ?tr = "tr\<lparr>probes := probes tr + 1, sleeps := sleeps tr @ [cur]\<rparr>"
      have step: "poll_loop server txHash strat maxAtt factor maxIntv attempt cur tr =
                  poll_loop server txHash strat maxAtt factor maxIntv (attempt + 1) ?cur ?tr"
        using True lt p0 by (subst poll_loop.simps) simp
      have pend: "\<forall>i<nat (maxAtt + 1 - (attempt + 1)). still_pending (server (probes ?tr + i))"
      proof (intro allI impI)
        fix i assume "i < nat (maxAtt + 1 - (attempt + 1))"
        then have "Suc i < nat (maxAtt + 1 - attempt)" using nxt by simp
        with "1.prems" have "still_pending (server (probes tr + Suc i))" by blast
        then show "still_pending (server (probes ?tr + i))" by simp
      qed
      from "1.IH"(1) [OF True p0 lt pend] show ?thesis
        unfolding step using nxt by simp
    next
      case ge: False
      let ?tr = "tr\<lparr>probes := probes tr + 1\<rparr>"
      have step: "poll_loop server txHash strat maxAtt factor maxIntv attempt cur tr =
                  poll_loop server txHash strat maxAtt factor maxIntv (attempt + 1) cur ?tr"
        using True ge p0 by (subst poll_loop.simps) simp
      have pend: "\<forall>i<nat (maxAtt + 1 - (attempt + 1)). still_pending (server (probes ?tr + i))"
        using True ge by simp
      from "1.IH"(2) [OF True p0 ge pend] show ?thesis
        unfolding step using nxt by simp
    qed
  qed
qed

lemma poll_loop_probe_bound:
  "probes (snd (poll_loop server txHash strat maxAtt factor maxIntv attempt cur tr))
     \<le> probes tr + nat (maxAtt + 1 - attempt)"
proof (induction server txHash strat maxAtt factor maxIntv attempt cur tr rule: poll_loop.induct)
  case (1 server txHash strat maxAtt factor maxIntv attempt cur tr)
  show ?case
  proof (cases "attempt \<le> maxAtt")
    case False
    then show ?thesis by (subst poll_loop.simps) simp
  next
    case True
    then have nxt: "nat (maxAtt + 1 - attempt) = Suc (nat (maxAtt + 1 - (attempt + 1)))"
      by simp
    show ?thesis
    proof (cases "probe_outcome txHash (server (probes tr))")
      case (Some r)
      with True show ?thesis by (subst poll_loop.simps) simp
    next
      case None
      show ?thesis
      proof (cases "attempt < maxAtt")
        case lt: True
        from "1.IH"(1) [OF True None lt] show ?thesis
          using True None lt nxt by (subst poll_loop.simps) simp
      next
        case ge: False
        from "1.IH"(2) [OF True None ge] show ?thesis
          using True None ge nxt by (subst poll_loop.simps) simp
      qed
    qed
  qed
qed


lemma poll_terminal:
  assumes "0 < k" and "int k \<le> (case maxAttempts options of Some m \<Rightarrow> m | None \<Rightarrow> 30)"
    and "\<forall>i<k - 1. still_pending (server i)"
    and "probe_outcome txHash (server (k - 1)) = Some r"
  shows "fst (poll server txHash options) = r"
    and "probes (snd (poll server txHash options)) = k"
    and "strategy options = None \<or> strategy options = Some LINEAR \<Longrightarrow>
           sleeps (snd (poll server txHash options))
             = replicate (k - 1) (case interval options of Some i \<Rightarrow> i | None \<Rightarrow> 1000)"
proof -
  let ?strat = "case strategy options of Some s \<Rightarrow> s | None \<Rightarrow> LINEAR"
  let ?iv = "case interval options of Some i \<Rightarrow> i | None \<Rightarrow> 1000"
  let ?m = "case maxAttempts options of Some m \<Rightarrow> m | None \<Rightarrow> 30"
  let ?f = "case backoffFactor options of Some b \<Rightarrow> b | None \<Rightarrow> 2"
  let ?mi = "case maxInterval options of Some m \<Rightarrow> m | None \<Rightarrow> 10000"
  let ?tr0 = "\<lparr>probes = 0, sleeps = []\<rparr>"
  have p: "poll server txHash options = poll_loop server txHash ?strat ?m ?f ?mi 1 ?iv ?tr0"
    by (simp add: poll_def Let_def)
  have a1: "\<forall>i<k - 1. still_pending (server (probes ?tr0 + i))" using assms(3) by simp
  have a2: "probe_outcome txHash (server (probes ?tr0 + (k - 1))) = Some r" using assms(4) by simp
  have a3: "1 + int (k - 1) \<le> ?m" using assms(1,2) by simp
  note L = poll_loop_terminal [OF a1 a2 a3, of ?strat ?f ?mi ?iv]
  from L show "fst (poll server txHash options) = r" unfolding p by simp
  from L have "probes (snd (poll server txHash options)) = k - 1 + 1"
    unfolding p by simp
  then show "probes (snd (poll server txHash options)) = k" using assms(1) by simp
  assume "strategy options = None \<or> strategy options = Some LINEAR"
  then have "?strat = LINEAR" by auto
  with L show "sleeps (snd (poll server txHash options)) = replicate (k - 1) ?iv"
    unfolding p by simp
qed

text \<open>
  C5.  With \<open>m\<close> the attempt budget of the options (30 by default):
  \<^item> when the probes before the \<open>k\<close>-th leave the transaction pending (they threw, or
    returned \<^verbatim>\<open>NOT_FOUND\<close> or another status the poller does not know) and the \<open>k\<close>-th
    probe, \<open>k \<le> m\<close>, reports \<^verbatim>\<open>SUCCESS\<close>, polling stops at once with the success result
    after exactly \<open>k\<close> probes; under the LINEAR strategy it has slept \<open>k - 1\<close> times the
    interval;
  \<^item> when the \<open>k\<close>-th probe reports \<^verbatim>\<open>FAILED\<close> instead, polling stops at once with the
    \<^verbatim>\<open>TX_FAILED\<close> result after exactly \<open>k\<close> probes;
  \<^item> when all of the first \<open>m\<close> probes leave the transaction pending, the result is the
    \<^verbatim>\<open>TX_TIMEOUT\<close> failure, a result different from \<^verbatim>\<open>TX_FAILED\<close>, after \<open>m\<close> probes;
  \<^item> never more than \<open>m\<close> probes are issued;
  \<^item> three \<^verbatim>\<open>NOT_FOUND\<close> probes followed by \<^verbatim>\<open>SUCCESS\<close>, under LINEAR with interval
    100, resolve to success on the fourth probe after three sleeps of 100 (300 in all).
\<close>

theorem poll_outcomes:
  fixes server :: "nat \<Rightarrow> probe" and txHash :: string and options :: PollingOptions
  defines "m \<equiv> (case maxAttempts options of Some a \<Rightarrow> a | None \<Rightarrow> 30)"
    and "iv \<equiv> (case interval options of Some i \<Rightarrow> i | None \<Rightarrow> 1000)"
    and "strat \<equiv> (case strategy options of Some s \<Rightarrow> s | None \<Rightarrow> LINEAR)"
    and "run \<equiv> poll server txHash options"
  shows
    "(\<forall>k st. 0 < k \<and> int k \<le> m \<and> (\<forall>i<k - 1. still_pending (server i))
         \<and> server (k - 1) = Returned st \<and> status st = ''SUCCESS''
       \<longrightarrow> fst run = PollSuccess txHash (case ledger st of Some l \<Rightarrow> l | None \<Rightarrow> 0) txHash
           \<and> probes (snd run) = k
           \<and> (strat = LINEAR \<longrightarrow> sleeps (snd run) = replicate (k - 1) iv))
     \<and> (\<forall>k st. 0 < k \<and> int k \<le> m \<and> (\<forall>i<k - 1. still_pending (server i))
         \<and> server (k - 1) = Returned st \<and> status st = ''FAILED''
       \<longrightarrow> fst run = PollFailure ''TX_FAILED'' ''Transaction failed on-chain'' (StatusDetails st) txHash
           \<and> probes (snd run) = k)
     \<and> ((\<forall>i<nat m. still_pending (server i))
       \<longrightarrow> fst run = PollFailure ''TX_TIMEOUT''
                       (''Transaction confirmation timed out after '' @ bigint_toString m @ '' attempts'')
                       (TimeoutDetails txHash m strat) txHash
           \<and> probes (snd run) = nat m)
     \<and> probes (snd run) \<le> nat m
     \<and> poll not_found_then_success ''TX_HASH''
           \<lparr>strategy = Some LINEAR, interval = Some 100, maxAttempts = Some 5,
            backoffFactor = None, maxInterval = None\<rparr>
         = (PollSuccess ''TX_HASH'' 101 ''TX_HASH'', \<lparr>probes = 4, sleeps = [100, 100, 100]\<rparr>)"
proof (intro conjI allI impI)
  fix k st
  assume h: "0 < k \<and> int k \<le> m \<and> (\<forall>i<k - 1. still_pending (server i))
         \<and> server (k - 1) = Returned st \<and> status st = ''SUCCESS''"
  then have o: "probe_outcome txHash (server (k - 1))
              = Some (PollSuccess txHash (case ledger st of Some l \<Rightarrow> l | None \<Rightarrow> 0) txHash)"
    by (simp add: probe_outcome_def)
  from h have k: "0 < k" and km: "int k \<le> (case maxAttempts options of Some m \<Rightarrow> m | None \<Rightarrow> 30)"
    and pend: "\<forall>i<k - 1. still_pending (server i)" by (simp_all add: m_def)
  show "fst run = PollSuccess txHash (case ledger st of Some l \<Rightarrow> l | None \<Rightarrow> 0) txHash"
    unfolding run_def by (rule poll_terminal(1) [OF k km pend o])
  show "probes (snd run) = k"
    unfolding run_def by (rule poll_terminal(2) [OF k km pend o])
  assume "strat = LINEAR"
  then have "strategy options = None \<or> strategy options = Some LINEAR"
    unfolding strat_def by (cases "strategy options") simp_all
  then show "sleeps (snd run) = replicate (k - 1) iv"
    unfolding run_def iv_def by (rule poll_terminal(3) [OF k km pend o])
next
  fix k st
  assume h: "0 < k \<and> int k \<le> m \<and> (\<forall>i<k - 1. still_pending (server i))
         \<and> server (k - 1) = Returned st \<and> status st = ''FAILED''"
  then have o: "probe_outcome txHash (server (k - 1))
              = Some (PollFailure ''TX_FAILED'' ''Transaction failed on-chain'' (StatusDetails st) txHash)"
    by (simp add: probe_outcome_def)
  from h have k: "0 < k" and km: "int k \<le> (case maxAttempts options of Some m \<Rightarrow> m | None \<Rightarrow> 30)"
    and pend: "\<forall>i<k - 1. still_pending (server i)" by (simp_all add: m_def)
  show "fst run = PollFailure ''TX_FAILED'' ''Transaction failed on-chain'' (StatusDetails st) txHash"
    unfolding run_def by (rule poll_terminal(1) [OF k km pend o])
  show "probes (snd run) = k"
    unfolding run_def by (rule poll_terminal(2) [OF k km pend o])
next
  assume pend: "\<forall>i<nat m. still_pending (server i)"
  let ?tr0 = "\<lparr>probes = 0, sleeps = []\<rparr>"
  have "\<forall>i<nat (m + 1 - 1). still_pending (server (probes ?tr0 + i))" using pend by simp
  from poll_loop_exhausts [OF this, of txHash strat
      "case backoffFactor options of Some b \<Rightarrow> b | None \<Rightarrow> 2"
      "case maxInterval options of Some m \<Rightarrow> m | None \<Rightarrow> 10000" iv]
  show "fst run = PollFailure ''TX_TIMEOUT''
                       (''Transaction confirmation timed out after '' @ bigint_toString m @ '' attempts'')
                       (TimeoutDetails txHash m strat) txHash"
    and "probes (snd run) = nat m"
    unfolding run_def poll_def m_def iv_def strat_def timed_out_def by simp_all
next
  show "probes (snd run) \<le> nat m"
    using poll_loop_probe_bound [of server txHash strat m
      "case backoffFactor options of Some b \<Rightarrow> b | None \<Rightarrow> 2"
      "case maxInterval options of Some m \<Rightarrow> m | None \<Rightarrow> 10000" 1 iv "\<lparr>probes = 0, sleeps = []\<rparr>"]
    unfolding run_def poll_def m_def iv_def strat_def by simp
next
  show "poll not_found_then_success ''TX_HASH''
           \<lparr>strategy = Some LINEAR, interval = Some 100, maxAttempts = Some 5,
            backoffFactor = None, maxInterval = None\<rparr>
         = (PollSuccess ''TX_HASH'' 101 ''TX_HASH'', \<lparr>probes = 4, sleeps = [100, 100, 100]\<rparr>)"
    by code_simp
qed

theorem poll_outcomes_witness:
  "fst (poll rpc_error_then_success ''TX_HASH'' interval_10)
     = PollSuccess ''TX_HASH'' 103 ''TX_HASH''
   \<and> probes (snd (poll rpc_error_then_success ''TX_HASH'' interval_10)) = 2
   \<and> sleeps (snd (poll rpc_error_then_success ''TX_HASH'' interval_10)) = [10]
   \<and> fst (poll (\<lambda>i. Returned \<lparr>status = ''FAILED'', ledger = None\<rparr>) ''TX_HASH'' interval_10)
     = PollFailure ''TX_FAILED'' ''Transaction failed on-chain''
         (StatusDetails \<lparr>status = ''FAILED'', ledger = None\<rparr>) ''TX_HASH''
   \<and> fst (poll (\<lambda>i. Returned \<lparr>status = ''NOT_FOUND'', ledger = None\<rparr>) ''TX_HASH''
             \<lparr>strategy = None, interval = Some 10, maxAttempts = Some 3,
              backoffFactor = None, maxInterval = None\<rparr>)
     = PollFailure ''TX_TIMEOUT'' ''Transaction confirmation timed out after 3 attempts''
         (TimeoutDetails ''TX_HASH'' 3 LINEAR) ''TX_HASH''
   \<and> probes (snd (poll (\<lambda>i. Returned \<lparr>status = ''NOT_FOUND'', ledger = None\<rparr>) ''TX_HASH''
             \<lparr>strategy = None, interval = Some 10, maxAttempts = Some 3,
              backoffFactor = None, maxInterval = None\<rparr>)) = 3"
proof -
  let ?ok = "\<lparr>status = ''SUCCESS'', ledger = Some 103\<rparr>"
  let ?bad = "\<lparr>status = ''FAILED'', ledger = None\<rparr>"
  let ?nf = "\<lparr>status = ''NOT_FOUND'', ledger = None\<rparr>"
  let ?o3 = "\<lparr>strategy = None, interval = Some 10, maxAttempts = Some 3,
              backoffFactor = None, maxInterval = None\<rparr>"
  have h1: "0 < (2::nat) \<and> int 2 \<le> (case maxAttempts interval_10 of Some a \<Rightarrow> a | None \<Rightarrow> 30)
              \<and> (\<forall>i<2 - 1. still_pending (rpc_error_then_success i))
              \<and> rpc_error_then_success (2 - 1) = Returned ?ok \<and> status ?ok = ''SUCCESS''"
    by (simp add: interval_10_def rpc_error_then_success_def still_pending_def)
  have s1: "(case strategy interval_10 of Some s \<Rightarrow> s | None \<Rightarrow> LINEAR) = LINEAR"
    by (simp add: interval_10_def)
  have i1: "(case interval interval_10 of Some i \<Rightarrow> i | None \<Rightarrow> 1000) = 10"
    by (simp add: interval_10_def)
  note T1 = poll_outcomes [where server = rpc_error_then_success and options = interval_10
      and txHash = "''TX_HASH''"]
  note A = T1 [THEN conjunct1, rule_format, of 2 ?ok, OF h1]
  have a: "fst (poll rpc_error_then_success ''TX_HASH'' interval_10)
             = PollSuccess ''TX_HASH'' 103 ''TX_HASH''
           \<and> probes (snd (poll rpc_error_then_success ''TX_HASH'' interval_10)) = 2
           \<and> sleeps (snd (poll rpc_error_then_success ''TX_HASH'' interval_10)) = [10]"
    using A s1 i1 by simp
  have h2: "0 < (1::nat) \<and> int 1 \<le> (case maxAttempts interval_10 of Some a \<Rightarrow> a | None \<Rightarrow> 30)
              \<and> (\<forall>i<(1::nat) - 1. still_pending ((\<lambda>i. Returned ?bad) i))
              \<and> (\<lambda>i::nat. Returned ?bad) (1 - 1) = Returned ?bad \<and> status ?bad = ''FAILED''"
    by (simp add: interval_10_def)
  note T2 = poll_outcomes [where server = "\<lambda>i. Returned ?bad" and options = interval_10
      and txHash = "''TX_HASH''"]
  note B = T2 [THEN conjunct2, THEN conjunct1, rule_format, of 1 ?bad, OF h2]
  have b: "fst (poll (\<lambda>i. Returned ?bad) ''TX_HASH'' interval_10)
             = PollFailure ''TX_FAILED'' ''Transaction failed on-chain'' (StatusDetails ?bad) ''TX_HASH''"
    using B by simp
  have h3: "\<forall>i<nat (case maxAttempts ?o3 of Some a \<Rightarrow> a | None \<Rightarrow> 30).
              still_pending ((\<lambda>i. Returned ?nf) i)"
    by (simp add: still_pending_def)
  note T3 = poll_outcomes [where server = "\<lambda>i. Returned ?nf" and options = ?o3
      and txHash = "''TX_HASH''"]
  note C = T3 [THEN conjunct2, THEN conjunct2, THEN conjunct1, rule_format, OF h3 [rule_format]]
  have ts: "bigint_toString 3 = ''3''" by code_simp
  from C have c: "fst (poll (\<lambda>i. Returned ?nf) ''TX_HASH'' ?o3)
             = PollFailure ''TX_TIMEOUT'' ''Transaction confirmation timed out after 3 attempts''
                 (TimeoutDetails ''TX_HASH'' 3 LINEAR) ''TX_HASH''
           \<and> probes (snd (poll (\<lambda>i. Returned ?nf) ''TX_HASH'' ?o3)) = 3"
    by (simp add: ts)
  from a b c show ?thesis by simp
qed

section \<open>Properties of the retry policy\<close>














section \<open>Properties of the path finder\<close>












end
